theory Spec2Isabelle
  imports Complex_Main
begin

section \<open>The aligner registry\<close>

text \<open>
  \<^verbatim>\<open>sktime/dists_kernels/numba_aligners/_registry.py\<close> imports two functions and
  binds \<^verbatim>\<open>NUMBA_ALIGNERS\<close> to a list holding one tuple. Python tuples are untyped
  sequences of values, so an entry is a list of values and its arity is a fact to be
  proved, not a consequence of the type. The two imported functions are referred to by
  name only; their bodies are not part of the registry module.
\<close>

datatype func_ref = dtw_cost_matrix_alignment | numba_dtw_cost_matrix_distance_factory

datatype pyval = PyStr string | PyFunc func_ref

definition NUMBA_ALIGNERS :: "pyval list list" where
  "NUMBA_ALIGNERS =
     [[PyStr ''dtw cost matrix alignment'',
       PyFunc dtw_cost_matrix_alignment,
       PyFunc numba_dtw_cost_matrix_distance_factory]]"

section \<open>The alignment engine\<close>

text \<open>
  The module \<^verbatim>\<open>sktime.dists_kernels.numba_aligners.dtw.dtw_cost_matrix\<close> that defines
  the alignment engine is not among the sources. Every definition of this section is
  therefore written from section 4.1 of the specification, step by step.
\<close>

text \<open>Modelled from the spec: a cell of the CostMatrix is a real or +infinity
  (the DTW implementation is missing from the sources).\<close>

datatype ecost = Fin real | PInf

text \<open>Modelled from the spec: the order on cells, with +infinity on top.\<close>

fun ecost_le :: "ecost \<Rightarrow> ecost \<Rightarrow> bool" where
  "ecost_le a PInf = True"
| "ecost_le PInf (Fin b) = False"
| "ecost_le (Fin a) (Fin b) = (a \<le> b)"

text \<open>Modelled from the spec: the minimum of two cells, used by the recurrence of step 3.\<close>

definition ecost_min :: "ecost \<Rightarrow> ecost \<Rightarrow> ecost" where
  "ecost_min a b = (if ecost_le a b then a else b)"

text \<open>Modelled from the spec: adding a finite pointwise cost to a cell (step 3).\<close>

fun ecost_add :: "real \<Rightarrow> ecost \<Rightarrow> ecost" where
  "ecost_add c PInf = PInf"
| "ecost_add c (Fin a) = Fin (c + a)"

text \<open>Modelled from the spec: the data model of section 3. An observation is a vector of
  \<open>D\<close> reals, a Sequence a list of observations, a CostMatrix a table of cells.\<close>

type_synonym vec = "real list"

type_synonym sequence = "vec list"

type_synonym cost_matrix = "ecost list list"

text \<open>Modelled from the spec: step 2, "an optional window constraint restricts \<open>|i-j|\<close> to
  within a band"; without a window every cell is in the band.\<close>

definition in_band :: "int option \<Rightarrow> nat \<Rightarrow> nat \<Rightarrow> bool" where
  "in_band window i j =
     (case window of None \<Rightarrow> True | Some w \<Rightarrow> \<bar>int i - int j\<bar> \<le> w)"

text \<open>Modelled from the spec: step 1, a matrix of shape \<open>(n+1) \<times> (m+1)\<close> with \<open>(0,0) = 0\<close>
  and +infinity in every other cell.\<close>

definition init_matrix :: "nat \<Rightarrow> nat \<Rightarrow> cost_matrix" where
  "init_matrix n m =
     (replicate (Suc n) (replicate (Suc m) PInf))[0 := (replicate (Suc m) PInf)[0 := Fin 0]]"

text \<open>Modelled from the spec: the body of the double loop of steps 2 and 3. A cell
  outside the band is skipped; a cell inside it receives
  \<open>pointwise_cost(A[i-1], B[j-1]) + min(matrix[i-1][j], matrix[i][j-1], matrix[i-1][j-1])\<close>.\<close>

definition fill_cell ::
  "(vec \<Rightarrow> vec \<Rightarrow> real) \<Rightarrow> int option \<Rightarrow> sequence \<Rightarrow> sequence \<Rightarrow> cost_matrix \<Rightarrow> nat \<Rightarrow> nat
     \<Rightarrow> cost_matrix" where
  "fill_cell pointwise_cost window A B M i j =
     (if in_band window i j
      then M[i := (M ! i)[j := ecost_add (pointwise_cost (A ! (i - 1)) (B ! (j - 1)))
                     (ecost_min (M ! (i - 1) ! j)
                        (ecost_min (M ! i ! (j - 1)) (M ! (i - 1) ! (j - 1))))]]
      else M)"

text \<open>Modelled from the spec: the inner loop, \<open>j\<close> in \<open>1..m\<close>.\<close>

definition fill_row ::
  "(vec \<Rightarrow> vec \<Rightarrow> real) \<Rightarrow> int option \<Rightarrow> sequence \<Rightarrow> sequence \<Rightarrow> cost_matrix \<Rightarrow> nat
     \<Rightarrow> cost_matrix" where
  "fill_row pointwise_cost window A B M i =
     fold (\<lambda>j M'. fill_cell pointwise_cost window A B M' i j) [1..<Suc (length B)] M"

text \<open>Modelled from the spec: the outer loop, \<open>i\<close> in \<open>1..n\<close>, run on the initial matrix.\<close>

definition cost_matrix ::
  "(vec \<Rightarrow> vec \<Rightarrow> real) \<Rightarrow> int option \<Rightarrow> sequence \<Rightarrow> sequence \<Rightarrow> cost_matrix" where
  "cost_matrix pointwise_cost window A B =
     fold (\<lambda>i M. fill_row pointwise_cost window A B M i) [1..<Suc (length A)]
       (init_matrix (length A) (length B))"

text \<open>Modelled from the spec: step 4, \<open>total_cost = matrix[n][m]\<close>.\<close>

definition final_cost :: "cost_matrix \<Rightarrow> sequence \<Rightarrow> sequence \<Rightarrow> ecost" where
  "final_cost M A B = M ! length A ! length B"

text \<open>Modelled from the spec: step 5, backtracking from \<open>(n,m)\<close> to \<open>(0,0)\<close>. Among the
  three predecessors the cheapest is taken, the diagonal first on a tie, then "up"
  \<open>(i-1, j)\<close>, then "left" \<open>(i, j-1)\<close>. Matrix cell \<open>(i+1, j+1)\<close> contributes the index pair
  \<open>(i, j)\<close>, and the path comes out in increasing order.\<close>

fun backtrack :: "cost_matrix \<Rightarrow> nat \<Rightarrow> nat \<Rightarrow> (nat \<times> nat) list" where
  "backtrack M 0 j = []"
| "backtrack M (Suc i) 0 = []"
| "backtrack M (Suc i) (Suc j) =
     (let diag = M ! i ! j; up = M ! i ! Suc j; left = M ! Suc i ! j
      in (if ecost_le diag up \<and> ecost_le diag left then backtrack M i j
          else if ecost_le up left then backtrack M i (Suc j)
          else backtrack M (Suc i) j) @ [(i, j)])"

text \<open>Modelled from the spec: the failures of section 7 that \<open>align\<close> can raise.\<close>

datatype align_error = InfeasibleAlignment | InvalidParameters

text \<open>Modelled from the spec: the triple \<open>(total_cost, path, matrix)\<close> that \<open>align\<close> returns.\<close>

record alignment =
  total_cost :: real
  path :: "(nat \<times> nat) list"
  matrix :: cost_matrix

text \<open>Modelled from the spec: "both sequences share the same channel dimensionality D".\<close>

definition same_dimension :: "sequence \<Rightarrow> sequence \<Rightarrow> bool" where
  "same_dimension A B =
     (case A @ B of [] \<Rightarrow> True | v # vs \<Rightarrow> list_all (\<lambda>u. length u = length v) vs)"

text \<open>Modelled from the spec: a window, when given, is not negative.\<close>

definition valid_window :: "int option \<Rightarrow> bool" where
  "valid_window window = (case window of None \<Rightarrow> True | Some w \<Rightarrow> 0 \<le> w)"

text \<open>Modelled from the spec: \<open>align(A, B, pointwise_cost, window)\<close>. Malformed parameters
  are detected before any matrix is built (section 7); an infinite corner cell is
  \<open>InfeasibleAlignment\<close> (step 4).\<close>

definition align ::
  "(vec \<Rightarrow> vec \<Rightarrow> real) \<Rightarrow> int option \<Rightarrow> sequence \<Rightarrow> sequence \<Rightarrow> align_error + alignment" where
  "align pointwise_cost window A B =
     (if \<not> valid_window window \<or> \<not> same_dimension A B then Inl InvalidParameters
      else let M = cost_matrix pointwise_cost window A B
           in case final_cost M A B of
                PInf \<Rightarrow> Inl InfeasibleAlignment
              | Fin c \<Rightarrow> Inr \<lparr>total_cost = c, path = backtrack M (length A) (length B), matrix = M\<rparr>)"

text \<open>Modelled from the spec: the squared difference summed across channels, the
  pointwise cost of the concrete scenarios of section 8.\<close>

definition squared_difference :: "vec \<Rightarrow> vec \<Rightarrow> real" where
  "squared_difference x y = sum_list (map (\<lambda>(a, b). (a - b)\<^sup>2) (zip x y))"

text \<open>Modelled from the spec: a pointwise cost that is finite and non-negative on every
  pair of vectors, as the precondition of \<open>align\<close> asks, and nothing more: the constant 1.\<close>

definition unit_cost :: "vec \<Rightarrow> vec \<Rightarrow> real" where
  "unit_cost x y = 1"

text \<open>Modelled from the spec: the recurrence of step 3 with the boundary values of step 1
  and the band of step 2, as a function of the coordinates. It is the reference against
  which the loops above are checked (lemma \<open>cost_matrix_cell\<close>).\<close>

fun cell :: "(vec \<Rightarrow> vec \<Rightarrow> real) \<Rightarrow> int option \<Rightarrow> sequence \<Rightarrow> sequence \<Rightarrow> nat \<Rightarrow> nat \<Rightarrow> ecost" where
  "cell c w A B 0 0 = Fin 0"
| "cell c w A B 0 (Suc j) = PInf"
| "cell c w A B (Suc i) 0 = PInf"
| "cell c w A B (Suc i) (Suc j) =
     (if in_band w (Suc i) (Suc j)
      then ecost_add (c (A ! i) (B ! j))
             (ecost_min (cell c w A B i (Suc j))
                (ecost_min (cell c w A B (Suc i) j) (cell c w A B i j)))
      else PInf)"

text \<open>
  The loop invariant of the fill: the matrix has its shape, the cells of rows before \<open>i\<close>
  and of row \<open>i\<close> before column \<open>k\<close> hold the recurrence's values, and every other cell
  still holds its initial value.
\<close>

definition filled ::
  "(vec \<Rightarrow> vec \<Rightarrow> real) \<Rightarrow> int option \<Rightarrow> sequence \<Rightarrow> sequence \<Rightarrow> nat \<Rightarrow> nat \<Rightarrow> cost_matrix
     \<Rightarrow> bool" where
  "filled c w A B i k M \<longleftrightarrow>
     length M = Suc (length A) \<and> (\<forall>r\<le>length A. length (M ! r) = Suc (length B)) \<and>
     (\<forall>r\<le>length A. \<forall>j\<le>length B.
        M ! r ! j = (if r < i \<or> (r = i \<and> j < k) then cell c w A B r j
                     else if r = 0 \<and> j = 0 then Fin 0 else PInf))"

section \<open>SummaryClassifier\<close>

text \<open>
  \<^verbatim>\<open>sktime/classification/feature_based/_summary_classifier.py\<close>. Python names that
  Isabelle does not accept are renamed: a leading underscore becomes the prefix \<open>u_\<close>
  (\<^verbatim>\<open>_transformer\<close> is \<open>u_transformer\<close>), the trailing underscore of
  \<^verbatim>\<open>n_classes_\<close> is dropped, and the methods \<^verbatim>\<open>__init__\<close>, \<^verbatim>\<open>_fit\<close>,
  \<^verbatim>\<open>_predict\<close> and \<^verbatim>\<open>_predict_proba\<close> carry the class name as prefix.
\<close>

text \<open>The exceptions the three methods can raise by themselves.\<close>

datatype py_error = AttributeError | IndexError | KeyError

text \<open>
  An attribute of a duck-typed object is absent or holds a value;
  \<^verbatim>\<open>getattr(obj, name, None)\<close> answers \<^verbatim>\<open>None\<close> both when the attribute is absent
  and when it holds \<^verbatim>\<open>None\<close>.
\<close>

datatype 'a attribute = Missing | Attr 'a

fun getattr_or_None :: "'a option attribute \<Rightarrow> 'a option" where
  "getattr_or_None Missing = None"
| "getattr_or_None (Attr v) = v"

text \<open>
  The wrapped estimator is an object of an external library. The model keeps what the
  classifier reads or writes: the attribute \<^verbatim>\<open>n_jobs\<close>, whether
  \<^verbatim>\<open>getattr(estimator, "predict_proba", None)\<close> is callable, and the rest of the
  object (parameters and learned state) as an opaque value.
\<close>

record 'm sk_estimator =
  est_n_jobs :: "int option attribute"
  callable_predict_proba :: bool
  est_model :: 'm

text \<open>
  The collaborators, taken as parameters: the constructor
  \<^verbatim>\<open>RandomForestClassifier(n_estimators=...)\<close>, the value that cloning and seeding
  gives an estimator, the estimator's \<^verbatim>\<open>fit\<close>, \<^verbatim>\<open>predict\<close> and
  \<^verbatim>\<open>predict_proba\<close>, and the transformer's \<^verbatim>\<open>fit_transform\<close> and
  \<^verbatim>\<open>transform\<close>. \<open>'x\<close> is one input instance (\<^verbatim>\<open>X.shape[0]\<close> is the length of
  the list of instances), \<open>'t\<close> a transformer object, \<open>'f\<close> a feature table, \<open>'l\<close> a class
  label.
\<close>

record ('x, 't, 'f, 'l, 'm) collaborators =
  RandomForestClassifier :: "nat \<Rightarrow> 'm sk_estimator"
  clone :: "'m sk_estimator \<Rightarrow> int option \<Rightarrow> 'm sk_estimator"
  est_fit :: "'m sk_estimator \<Rightarrow> 'f \<Rightarrow> 'l list \<Rightarrow> 'm sk_estimator"
  est_predict :: "'m sk_estimator \<Rightarrow> 'f \<Rightarrow> 'l list"
  est_predict_proba :: "'m sk_estimator \<Rightarrow> 'f \<Rightarrow> real list list"
  fit_transform :: "'t \<Rightarrow> 'x list \<Rightarrow> 'l list \<Rightarrow> 'f \<times> 't"
  transform :: "'t \<Rightarrow> 'x list \<Rightarrow> 'f"

text \<open>
  Estimators and transformers are mutable objects reached through references, and the
  caller keeps a reference to the estimator it passed in. The store holds the objects;
  a reference is an index into it. Python has no dangling references: a reference held
  by a classifier is below the length of its list, and a theorem that needs this says so.
\<close>

record ('t, 'm) heap =
  estimators :: "'m sk_estimator list"
  transformers :: "'t list"

text \<open>Constructing an estimator object: it is stored at a fresh reference.\<close>

definition new_estimator :: "('t, 'm) heap \<Rightarrow> 'm sk_estimator \<Rightarrow> ('t, 'm) heap \<times> nat" where
  "new_estimator h e = (h\<lparr>estimators := estimators h @ [e]\<rparr>, length (estimators h))"

text \<open>Modelled from the spec: \<^verbatim>\<open>_clone_estimator\<close> of \<^verbatim>\<open>sktime.base._base\<close> is
  missing from the sources; the specification names it among the "parameter
  cloning/seeding utilities". It builds a new estimator object from the given one and the
  random state; which value the new object has is the parameter \<open>clone\<close>.\<close>

definition clone_estimator ::
  "('x, 't, 'f, 'l, 'm) collaborators \<Rightarrow> ('t, 'm) heap \<Rightarrow> nat \<Rightarrow> int option
     \<Rightarrow> ('t, 'm) heap \<times> nat" where
  "clone_estimator env h a rs = new_estimator h (clone env (estimators h ! a) rs)"

text \<open>
  The attributes that the base class \<^verbatim>\<open>BaseClassifier\<close> maintains and the three
  methods read: \<^verbatim>\<open>n_classes_\<close>, \<^verbatim>\<open>_class_dictionary\<close> and
  \<^verbatim>\<open>_threads_to_use\<close>. The base class is not among the sources; its attributes are
  part of the state, with whatever values they have.
\<close>

record 'l base_classifier =
  n_classes :: nat
  u_class_dictionary :: "'l \<rightharpoonup> nat"
  u_threads_to_use :: int

text \<open>The attributes \<^verbatim>\<open>__init__\<close> sets (lines 75 to 83).\<close>

record 'l summary_classifier =
  summary_functions :: "string list"
  summary_quantiles :: "real list"
  estimator :: "nat option"
  n_jobs :: int
  random_state :: "int option"
  u_transformer :: "nat option"
  u_estimator :: "nat option"
  base :: "'l base_classifier"

text \<open>
  \<^verbatim>\<open>__init__\<close>: the five parameters are stored, \<^verbatim>\<open>_transformer\<close> and
  \<^verbatim>\<open>_estimator\<close> are set to \<^verbatim>\<open>None\<close>, and the base class initialises its own
  attributes (the argument \<open>b\<close>).
\<close>

definition SummaryClassifier_init ::
  "'l base_classifier \<Rightarrow> string list \<Rightarrow> real list \<Rightarrow> nat option \<Rightarrow> int \<Rightarrow> int option
     \<Rightarrow> 'l summary_classifier" where
  "SummaryClassifier_init b sf sq est nj rs =
     \<lparr>summary_functions = sf, summary_quantiles = sq, estimator = est, n_jobs = nj,
      random_state = rs, u_transformer = None, u_estimator = None, base = b\<rparr>"

text \<open>
  \<^verbatim>\<open>_fit\<close> (lines 87 to 107). The construction of the transformer is commented out
  in the source (lines 88 to 91), so the method starts with the estimator. Lines 93 to 98
  build a random forest when \<^verbatim>\<open>self.estimator\<close> is \<^verbatim>\<open>None\<close> and clone the
  chosen estimator; lines 100 to 102 forward the thread count; line 104 calls
  \<^verbatim>\<open>fit_transform\<close> on \<^verbatim>\<open>self._transformer\<close>, which raises
  \<^verbatim>\<open>AttributeError\<close> when that attribute is \<^verbatim>\<open>None\<close>; line 105 fits the clone.
  The assignments made before an exception stay in the state.
\<close>

definition SummaryClassifier_fit ::
  "('x, 't, 'f, 'l, 'm) collaborators \<Rightarrow> 'x list \<Rightarrow> 'l list
     \<Rightarrow> ('t, 'm) heap \<times> 'l summary_classifier
     \<Rightarrow> (py_error + unit) \<times> ('t, 'm) heap \<times> 'l summary_classifier" where
  "SummaryClassifier_fit env X y \<sigma> =
     (let (h, self) = \<sigma>;
          (h1, a) = (case estimator self of
                       None \<Rightarrow> new_estimator h (RandomForestClassifier env 200)
                     | Some a \<Rightarrow> (h, a));
          (h2, c) = clone_estimator env h1 a (random_state self);
          self1 = self\<lparr>u_estimator := Some c\<rparr>;
          m = getattr_or_None (est_n_jobs (estimators h2 ! c));
          h3 = (if m \<noteq> None
                then h2\<lparr>estimators := (estimators h2)
                        [c := (estimators h2 ! c)
                                \<lparr>est_n_jobs := Attr (Some (u_threads_to_use (base self1)))\<rparr>]\<rparr>
                else h2)
      in case u_transformer self1 of
           None \<Rightarrow> (Inl AttributeError, h3, self1)
         | Some t \<Rightarrow>
             (let (X_t, t') = fit_transform env (transformers h3 ! t) X y;
                  h4 = h3\<lparr>transformers := (transformers h3)[t := t']\<rparr>;
                  h5 = h4\<lparr>estimators := (estimators h4)[c := est_fit env (estimators h4 ! c) X_t y]\<rparr>
              in (Inr (), h5, self1)))"

text \<open>
  \<^verbatim>\<open>_predict\<close> (line 110): \<^verbatim>\<open>self._estimator.predict\<close> is looked up first, then
  \<^verbatim>\<open>self._transformer.transform\<close>; either lookup raises \<^verbatim>\<open>AttributeError\<close> on
  \<^verbatim>\<open>None\<close>.
\<close>

definition SummaryClassifier_predict ::
  "('x, 't, 'f, 'l, 'm) collaborators \<Rightarrow> 'x list \<Rightarrow> ('t, 'm) heap \<times> 'l summary_classifier
     \<Rightarrow> py_error + 'l list" where
  "SummaryClassifier_predict env X \<sigma> =
     (let (h, self) = \<sigma>
      in case u_estimator self of
           None \<Rightarrow> Inl AttributeError
         | Some c \<Rightarrow>
             (case u_transformer self of
                None \<Rightarrow> Inl AttributeError
              | Some t \<Rightarrow>
                  Inr (est_predict env (estimators h ! c) (transform env (transformers h ! t) X))))"

text \<open>\<^verbatim>\<open>np.zeros((n, k))\<close>.\<close>

definition zeros :: "nat \<Rightarrow> nat \<Rightarrow> real list list" where
  "zeros n k = replicate n (replicate k 0)"

text \<open>
  The body of the loop of lines 119 and 120,
  \<^verbatim>\<open>dists[i, self._class_dictionary[preds[i]]] = 1\<close>: reading \<^verbatim>\<open>preds[i]\<close> past
  the end raises \<^verbatim>\<open>IndexError\<close>, a label that is not a key of the dictionary raises
  \<^verbatim>\<open>KeyError\<close>, and a position outside \<^verbatim>\<open>dists\<close> raises \<^verbatim>\<open>IndexError\<close>.
\<close>

definition set_one ::
  "('l \<rightharpoonup> nat) \<Rightarrow> 'l list \<Rightarrow> real list list \<Rightarrow> nat \<Rightarrow> py_error + real list list" where
  "set_one class_dictionary preds dists i =
     (if i < length preds
      then (case class_dictionary (preds ! i) of
              None \<Rightarrow> Inl KeyError
            | Some k \<Rightarrow>
                if i < length dists \<and> k < length (dists ! i)
                then Inr (dists[i := (dists ! i)[k := 1]])
                else Inl IndexError)
      else Inl IndexError)"

text \<open>The loop over \<^verbatim>\<open>range(0, X.shape[0])\<close>; it stops at the first exception.\<close>

fun one_hot_loop ::
  "('l \<rightharpoonup> nat) \<Rightarrow> 'l list \<Rightarrow> nat list \<Rightarrow> real list list \<Rightarrow> py_error + real list list" where
  "one_hot_loop class_dictionary preds [] dists = Inr dists"
| "one_hot_loop class_dictionary preds (i # rest) dists =
     (case set_one class_dictionary preds dists i of
        Inl e \<Rightarrow> Inl e
      | Inr dists' \<Rightarrow> one_hot_loop class_dictionary preds rest dists')"

text \<open>
  \<^verbatim>\<open>_predict_proba\<close> (lines 112 to 121). \<^verbatim>\<open>getattr\<close> on \<^verbatim>\<open>None\<close> answers the
  default, which is not callable. In both branches the estimator's method is looked up
  before \<^verbatim>\<open>self._transformer.transform\<close>.
\<close>

definition SummaryClassifier_predict_proba ::
  "('x, 't, 'f, 'l, 'm) collaborators \<Rightarrow> 'x list \<Rightarrow> ('t, 'm) heap \<times> 'l summary_classifier
     \<Rightarrow> py_error + real list list" where
  "SummaryClassifier_predict_proba env X \<sigma> =
     (let (h, self) = \<sigma>;
          m = (case u_estimator self of
                 None \<Rightarrow> False
               | Some c \<Rightarrow> callable_predict_proba (estimators h ! c))
      in if m
         then (case u_estimator self of
                 None \<Rightarrow> Inl AttributeError
               | Some c \<Rightarrow>
                   (case u_transformer self of
                      None \<Rightarrow> Inl AttributeError
                    | Some t \<Rightarrow>
                        Inr (est_predict_proba env (estimators h ! c)
                               (transform env (transformers h ! t) X))))
         else (let dists = zeros (length X) (n_classes (base self))
               in case u_estimator self of
                    None \<Rightarrow> Inl AttributeError
                  | Some c \<Rightarrow>
                      (case u_transformer self of
                         None \<Rightarrow> Inl AttributeError
                       | Some t \<Rightarrow>
                           (let preds = est_predict env (estimators h ! c)
                                          (transform env (transformers h ! t) X)
                            in one_hot_loop (u_class_dictionary (base self)) preds
                                 [0..<length X] dists))))"

text \<open>
  A history of an instance: any sequence of calls of the three methods after
  \<^verbatim>\<open>__init__\<close>. \<^verbatim>\<open>_predict\<close> and \<^verbatim>\<open>_predict_proba\<close> assign nothing, so they
  leave the state as it is; \<^verbatim>\<open>_fit\<close> leaves the state it reached, also when it raised.
\<close>

datatype ('x, 'l) call = Fit "'x list" "'l list" | Predict "'x list" | PredictProba "'x list"

fun step ::
  "('x, 't, 'f, 'l, 'm) collaborators \<Rightarrow> ('t, 'm) heap \<times> 'l summary_classifier \<Rightarrow> ('x, 'l) call
     \<Rightarrow> ('t, 'm) heap \<times> 'l summary_classifier" where
  "step env \<sigma> (Fit X y) = snd (SummaryClassifier_fit env X y \<sigma>)"
| "step env \<sigma> (Predict X) = \<sigma>"
| "step env \<sigma> (PredictProba X) = \<sigma>"

text \<open>
  The object that line 93 hands to \<^verbatim>\<open>_clone_estimator\<close>: a new random forest with
  200 trees when \<^verbatim>\<open>self.estimator\<close> is \<^verbatim>\<open>None\<close>, the caller's estimator otherwise.
\<close>

definition fit_source ::
  "('x, 't, 'f, 'l, 'm) collaborators \<Rightarrow> ('t, 'm) heap \<Rightarrow> 'l summary_classifier
     \<Rightarrow> 'm sk_estimator" where
  "fit_source env h s =
     (case estimator s of None \<Rightarrow> RandomForestClassifier env 200 | Some a \<Rightarrow> estimators h ! a)"

subsection \<open>Concrete collaborators\<close>

text \<open>
  Small collaborators on which the methods can be run: an instance is a univariate
  series, the transformer sums each series, the estimator remembers the first training
  label and predicts it. The random forest has \<^verbatim>\<open>n_jobs=None\<close> and a
  \<^verbatim>\<open>predict_proba\<close>, as the library's has; \<open>stub_estimator\<close> is an estimator with
  \<^verbatim>\<open>n_jobs=4\<close> and no \<^verbatim>\<open>predict_proba\<close>.
\<close>

definition stub_estimator :: "nat option sk_estimator" where
  "stub_estimator = \<lparr>est_n_jobs = Attr (Some 4), callable_predict_proba = False, est_model = None\<rparr>"

definition stub_forest :: "nat option sk_estimator" where
  "stub_forest = \<lparr>est_n_jobs = Attr None, callable_predict_proba = True, est_model = None\<rparr>"

definition stub_env :: "(real list, unit, real list, nat, nat option) collaborators" where
  "stub_env =
     \<lparr>RandomForestClassifier = (\<lambda>n. stub_forest),
      clone = (\<lambda>e rs. e\<lparr>est_model := None\<rparr>),
      est_fit = (\<lambda>e X_t y. e\<lparr>est_model := (case y of [] \<Rightarrow> None | l # _ \<Rightarrow> Some l)\<rparr>),
      est_predict = (\<lambda>e X_t. map (\<lambda>_. case est_model e of None \<Rightarrow> 0 | Some l \<Rightarrow> l) X_t),
      est_predict_proba = (\<lambda>e X_t. map (\<lambda>_. [1]) X_t),
      fit_transform = (\<lambda>t X y. (map sum_list X, t)),
      transform = (\<lambda>t X. map sum_list X)\<rparr>"

definition stub_base :: "nat base_classifier" where
  "stub_base = \<lparr>n_classes = 2, u_class_dictionary = [0 \<mapsto> 0, 1 \<mapsto> 1], u_threads_to_use = 1\<rparr>"

text \<open>\<^verbatim>\<open>SummaryClassifier()\<close> with the defaults of the signature (lines 69 to 73).\<close>

definition default_classifier :: "nat summary_classifier" where
  "default_classifier =
     SummaryClassifier_init stub_base [''mean'', ''std'', ''min'', ''max''] [0.25, 0.5, 0.75]
       None 1 None"

text \<open>\<^verbatim>\<open>SummaryClassifier(estimator=e)\<close> where \<open>e\<close> is the object at reference 0.\<close>

definition classifier_with_estimator :: "nat summary_classifier" where
  "classifier_with_estimator =
     SummaryClassifier_init stub_base [''mean'', ''std'', ''min'', ''max''] [0.25, 0.5, 0.75]
       (Some 0) 1 None"

section \<open>Properties of the registry\<close>

text \<open>
  C3: the registry has an entry named "dtw cost matrix alignment"; the entry has exactly
  three components: the name string, then the alignment engine
  \<^verbatim>\<open>dtw_cost_matrix_alignment\<close> in second position, then the distance factory
  \<^verbatim>\<open>numba_dtw_cost_matrix_distance_factory\<close> in third position. Searching the
  registry for an entry whose first component is that name finds it.
\<close>

theorem registry_dtw_entry:
  "[PyStr ''dtw cost matrix alignment'',
    PyFunc dtw_cost_matrix_alignment,
    PyFunc numba_dtw_cost_matrix_distance_factory] \<in> set NUMBA_ALIGNERS
   \<and> List.find (\<lambda>e. take 1 e = [PyStr ''dtw cost matrix alignment'']) NUMBA_ALIGNERS
       = Some [PyStr ''dtw cost matrix alignment'',
               PyFunc dtw_cost_matrix_alignment,
               PyFunc numba_dtw_cost_matrix_distance_factory]"
  by (simp add: NUMBA_ALIGNERS_def)

text \<open>
  C5: every entry of the registry has three components, the first of them a string, and
  these names are pairwise distinct; strings are compared character by character, so the
  comparison is case-sensitive.
\<close>

theorem registry_three_tuples_distinct_names:
  "list_all (\<lambda>e. length e = 3) NUMBA_ALIGNERS
   \<and> list_all (\<lambda>e. \<exists>s. take 1 e = [PyStr s]) NUMBA_ALIGNERS
   \<and> distinct (map (take 1) NUMBA_ALIGNERS)"
  by (simp add: NUMBA_ALIGNERS_def)

section \<open>Properties of the alignment engine\<close>

subsection \<open>Cells\<close>

lemma ecost_le_refl [simp]: "ecost_le a a"
  by (cases a) simp_all

lemma ecost_min_mono:
  "ecost_le a a' \<Longrightarrow> ecost_le b b' \<Longrightarrow> ecost_le (ecost_min a b) (ecost_min a' b')"
  by (cases a; cases b; cases a'; cases b') (simp_all add: ecost_min_def)

lemma ecost_add_mono: "ecost_le a b \<Longrightarrow> ecost_le (ecost_add c a) (ecost_add c b)"
  by (cases a; cases b) simp_all

lemma cell_band_mono:
  "\<forall>i j. in_band w1 i j \<longrightarrow> in_band w2 i j \<Longrightarrow>
   ecost_le (cell c w2 A B i j) (cell c w1 A B i j)"
proof (induction c w1 A B i j rule: cell.induct)
  case (4 c w A B i j)
  show ?case
  proof (cases "in_band w (Suc i) (Suc j)")
    case True
    then have b2: "in_band w2 (Suc i) (Suc j)" using "4.prems" by blast
    have "ecost_le
            (ecost_min (cell c w2 A B i (Suc j)) (ecost_min (cell c w2 A B (Suc i) j) (cell c w2 A B i j)))
            (ecost_min (cell c w A B i (Suc j)) (ecost_min (cell c w A B (Suc i) j) (cell c w A B i j)))"
      using "4.IH" "4.prems" True by (intro ecost_min_mono) simp_all
    then show ?thesis using True b2 by (simp add: ecost_add_mono)
  next
    case False
    then show ?thesis by simp
  qed
qed simp_all

lemma ecost_min_nonneg:
  "ecost_le (Fin 0) a \<Longrightarrow> ecost_le (Fin 0) b \<Longrightarrow> ecost_le (Fin 0) (ecost_min a b)"
  by (simp add: ecost_min_def)

lemma ecost_add_nonneg: "0 \<le> c \<Longrightarrow> ecost_le (Fin 0) a \<Longrightarrow> ecost_le (Fin 0) (ecost_add c a)"
  by (cases a) simp_all

lemma cell_nonneg:
  "\<forall>a\<in>set A. \<forall>b\<in>set B. 0 \<le> c a b \<Longrightarrow> i \<le> length A \<Longrightarrow> j \<le> length B \<Longrightarrow>
   ecost_le (Fin 0) (cell c w A B i j)"
proof (induction c w A B i j rule: cell.induct)
  case (4 c w A B i j)
  show ?case
  proof (cases "in_band w (Suc i) (Suc j)")
    case True
    have "A ! i \<in> set A" "B ! j \<in> set B"
      using "4.prems" by simp_all
    then have cost: "0 \<le> c (A ! i) (B ! j)"
      using "4.prems"(1) by blast
    have "ecost_le (Fin 0) (cell c w A B i (Suc j))" "ecost_le (Fin 0) (cell c w A B (Suc i) j)"
      "ecost_le (Fin 0) (cell c w A B i j)"
      using "4.IH" "4.prems" True by simp_all
    then show ?thesis
      using True cost by (simp add: ecost_min_nonneg ecost_add_nonneg)
  next
    case False
    then show ?thesis by simp
  qed
qed simp_all

lemma ecost_min_zero: "ecost_le (Fin 0) a \<Longrightarrow> ecost_min a (Fin 0) = Fin 0"
  by (cases a) (simp_all add: ecost_min_def)

subsection \<open>The loops compute the recurrence\<close>

lemma cell_row0: "cell c w A B 0 j = (if j = 0 then Fin 0 else PInf)"
  by (cases j) simp_all

lemma cell_col0: "cell c w A B i 0 = (if i = 0 then Fin 0 else PInf)"
  by (cases i) simp_all

lemma filled_init: "filled c w A B 1 1 (init_matrix (length A) (length B))"
  unfolding filled_def init_matrix_def
  by (auto simp: nth_list_update cell_row0 cell_col0 nth_Cons')

lemma nth_update2:
  "i < length M \<Longrightarrow> k < length (M ! i) \<Longrightarrow>
   M[i := (M ! i)[k := v]] ! r ! j = (if r = i \<and> j = k then v else M ! r ! j)"
  by (cases "r = i") (simp_all add: nth_list_update)

lemma length_update2:
  "length (M[i := (M ! i)[k := v]] ! r) = length (M ! r)"
  by (cases "r = i"; cases "i < length M") (simp_all add: list_update_beyond)

lemma filled_step:
  assumes f: "filled c w A B i k M" and i: "1 \<le> i" "i \<le> length A" and k: "1 \<le> k" "k \<le> length B"
  shows "filled c w A B i (Suc k) (fill_cell c w A B M i k)"
proof -
  obtain i' k' where ik: "i = Suc i'" "k = Suc k'" using i k by (cases i; cases k) auto
  have len: "length M = Suc (length A)" and lens: "\<forall>r\<le>length A. length (M ! r) = Suc (length B)"
    and cells: "\<forall>r\<le>length A. \<forall>j\<le>length B.
        M ! r ! j = (if r < i \<or> (r = i \<and> j < k) then cell c w A B r j
                     else if r = 0 \<and> j = 0 then Fin 0 else PInf)"
    using f unfolding filled_def by simp_all
  have iM: "i < length M" "k < length (M ! i)" using len lens i k by simp_all
  show ?thesis
  proof (cases "in_band w i k")
    case False
    have "cell c w A B i k = PInf" using False by (simp add: ik)
    moreover have "M ! i ! k = PInf" using cells i k by simp
    ultimately have "\<forall>r\<le>length A. \<forall>j\<le>length B.
        M ! r ! j = (if r < i \<or> (r = i \<and> j < Suc k) then cell c w A B r j
                     else if r = 0 \<and> j = 0 then Fin 0 else PInf)"
      using cells by (auto simp: less_Suc_eq)
    then show ?thesis using False len lens
      unfolding filled_def fill_cell_def by simp
  next
    case True
    have up: "M ! i' ! k = cell c w A B i' k" and left: "M ! i ! k' = cell c w A B i k'"
      and diag: "M ! i' ! k' = cell c w A B i' k'"
      using cells i k unfolding ik by simp_all
    have new: "ecost_add (c (A ! (i - 1)) (B ! (k - 1)))
                 (ecost_min (M ! (i - 1) ! k) (ecost_min (M ! i ! (k - 1)) (M ! (i - 1) ! (k - 1))))
               = cell c w A B i k"
      using True up left diag by (simp add: ik)
    have "\<forall>r\<le>length A. \<forall>j\<le>length B.
        M[i := (M ! i)[k := cell c w A B i k]] ! r ! j
          = (if r < i \<or> (r = i \<and> j < Suc k) then cell c w A B r j
             else if r = 0 \<and> j = 0 then Fin 0 else PInf)"
      using cells i by (auto simp: nth_update2[OF iM] less_Suc_eq)
    then show ?thesis using True len lens
      unfolding filled_def fill_cell_def new by (simp add: length_update2)
  qed
qed

lemma filled_row_prefix:
  assumes f: "filled c w A B i 1 M" and i: "1 \<le> i" "i \<le> length A"
  shows "k \<le> length B \<Longrightarrow>
         filled c w A B i (Suc k) (fold (\<lambda>j M'. fill_cell c w A B M' i j) [1..<Suc k] M)"
proof (induction k)
  case 0
  show ?case using f by simp
next
  case (Suc k)
  then have "filled c w A B i (Suc k) (fold (\<lambda>j M'. fill_cell c w A B M' i j) [1..<Suc k] M)"
    by simp
  then have "filled c w A B i (Suc (Suc k))
               (fill_cell c w A B (fold (\<lambda>j M'. fill_cell c w A B M' i j) [1..<Suc k] M) i (Suc k))"
    using i Suc.prems by (intro filled_step) simp_all
  then show ?case by simp
qed

lemma filled_row:
  assumes "filled c w A B i 1 M" "1 \<le> i" "i \<le> length A"
  shows "filled c w A B (Suc i) 1 (fill_row c w A B M i)"
proof -
  have "filled c w A B i (Suc (length B)) (fill_row c w A B M i)"
    unfolding fill_row_def using assms by (intro filled_row_prefix) simp_all
  then show ?thesis
    unfolding filled_def by (auto simp: less_Suc_eq cell_col0)
qed

lemma filled_rows_prefix:
  "n \<le> length A \<Longrightarrow>
   filled c w A B (Suc n) 1
     (fold (\<lambda>i M. fill_row c w A B M i) [1..<Suc n] (init_matrix (length A) (length B)))"
proof (induction n)
  case 0
  show ?case using filled_init by simp
next
  case (Suc n)
  then have "filled c w A B (Suc n) 1
     (fold (\<lambda>i M. fill_row c w A B M i) [1..<Suc n] (init_matrix (length A) (length B)))"
    by simp
  then have "filled c w A B (Suc (Suc n)) 1
     (fill_row c w A B (fold (\<lambda>i M. fill_row c w A B M i) [1..<Suc n] (init_matrix (length A) (length B))) (Suc n))"
    using Suc.prems by (intro filled_row) simp_all
  then show ?case by simp
qed

lemma cost_matrix_cell:
  "i \<le> length A \<Longrightarrow> j \<le> length B \<Longrightarrow> cost_matrix c w A B ! i ! j = cell c w A B i j"
  using filled_rows_prefix[of "length A" A c w B]
  unfolding cost_matrix_def filled_def by auto

lemma final_cost_cell: "final_cost (cost_matrix c w A B) A B = cell c w A B (length A) (length B)"
  by (simp add: final_cost_def cost_matrix_cell)

subsection \<open>Identical sequences\<close>

lemma same_dimension_self:
  "same_dimension A A \<Longrightarrow> \<forall>a\<in>set A. \<forall>b\<in>set A. length a = length b"
  by (cases A) (auto simp: same_dimension_def list_all_iff)

lemma cell_diagonal_zero:
  assumes nonneg: "\<forall>a\<in>set A. \<forall>b\<in>set A. 0 \<le> c a b" and zero: "\<forall>x. c x x = 0"
    and band: "\<forall>i. in_band w i i"
  shows "i \<le> length A \<Longrightarrow> cell c w A A i i = Fin 0"
proof (induction i)
  case 0
  show ?case by simp
next
  case (Suc i)
  have inner: "ecost_min (cell c w A A (Suc i) i) (Fin 0) = Fin 0"
    using Suc.prems by (intro ecost_min_zero cell_nonneg[OF nonneg]) simp_all
  have outer: "ecost_min (cell c w A A i (Suc i)) (Fin 0) = Fin 0"
    using Suc.prems by (intro ecost_min_zero cell_nonneg[OF nonneg]) simp_all
  show ?case
    using Suc band zero by (simp add: inner outer)
qed

lemma backtrack_diagonal:
  assumes diag: "\<forall>i<k. M ! i ! i = Fin 0"
    and up: "\<forall>i<k. ecost_le (Fin 0) (M ! i ! Suc i)"
    and left: "\<forall>i<k. ecost_le (Fin 0) (M ! Suc i ! i)"
  shows "backtrack M k k = map (\<lambda>i. (i, i)) [0..<k]"
  using assms by (induction k) simp_all

lemma squared_difference_nonneg: "0 \<le> squared_difference x y"
  unfolding squared_difference_def by (rule sum_list_nonneg) auto

lemma squared_difference_self: "squared_difference x x = 0"
  unfolding squared_difference_def by (induction x) simp_all

lemma unit_cost_nonneg: "0 \<le> unit_cost x y"
  by (simp add: unit_cost_def)

text \<open>
  C6, as stated, fails: the constant cost 1 is finite and non-negative on every pair of
  vectors (lemma \<open>unit_cost_nonneg\<close>), and aligning the one-element sequence \<open>[[0]]\<close> with
  itself under it costs 1, not 0.
\<close>

theorem identical_sequences_counterexample:
  "map_sum id total_cost (align unit_cost None [[0]] [[0]]) = Inr 1
   \<and> map_sum id total_cost (align unit_cost None [[0]] [[0]]) \<noteq> Inr 0"
proof -
  have "align unit_cost None [[0]] [[0]] =
          Inr \<lparr>total_cost = 1, path = [(0, 0)], matrix = [[Fin 0, PInf], [PInf, Fin 1]]\<rparr>"
    by code_simp
  then show ?thesis by simp
qed

text \<open>
  C6, amended: for every sequence \<open>A\<close> of vectors of one dimension, every valid window and
  every pointwise cost that is non-negative on every pair of vectors of the same
  dimension and 0 on every pair of identical vectors, aligning \<open>A\<close> with itself succeeds
  with total cost 0 and the diagonal path \<open>(0,0), (1,1), ..., (n-1,n-1)\<close>. Nothing is asked
  of the cost on vectors of different dimensions.
\<close>

theorem identical_sequences_diagonal:
  assumes nonneg: "\<forall>x y. length x = length y \<longrightarrow> 0 \<le> c x y" and zero: "\<forall>x. c x x = 0"
    and win: "valid_window w" and dim: "same_dimension A A"
  shows "align c w A A =
           Inr \<lparr>total_cost = 0, path = map (\<lambda>i. (i, i)) [0..<length A],
                matrix = cost_matrix c w A A\<rparr>"
proof -
  have band: "\<forall>i. in_band w i i"
    using win by (simp add: in_band_def valid_window_def split: option.splits)
  have pairs: "\<forall>a\<in>set A. \<forall>b\<in>set A. 0 \<le> c a b"
    using same_dimension_self[OF dim] nonneg by blast
  let ?M = "cost_matrix c w A A"
  have fin: "final_cost ?M A A = Fin 0"
    unfolding final_cost_cell by (rule cell_diagonal_zero[OF pairs zero band]) simp
  have "backtrack ?M (length A) (length A) = map (\<lambda>i. (i, i)) [0..<length A]"
  proof (rule backtrack_diagonal)
    show "\<forall>i<length A. ?M ! i ! i = Fin 0"
      by (simp add: cost_matrix_cell cell_diagonal_zero[OF pairs zero band])
    show "\<forall>i<length A. ecost_le (Fin 0) (?M ! i ! Suc i)"
      by (simp add: cost_matrix_cell cell_nonneg[OF pairs])
    show "\<forall>i<length A. ecost_le (Fin 0) (?M ! Suc i ! i)"
      by (simp add: cost_matrix_cell cell_nonneg[OF pairs])
  qed
  then show ?thesis using win dim fin by (simp add: align_def)
qed

text \<open>
  The amended C6 at the scenario of section 8 of the specification: \<open>A = B = [1,2,3]\<close>
  under the squared difference.
\<close>

theorem identical_sequences_diagonal_witness:
  "(\<forall>x y. 0 \<le> squared_difference x y) \<and> (\<forall>x. squared_difference x x = 0)
   \<and> valid_window None \<and> same_dimension [[1], [2], [3]] [[1], [2], [3]]
   \<and> align squared_difference None [[1], [2], [3]] [[1], [2], [3]] =
       Inr \<lparr>total_cost = 0, path = [(0, 0), (1, 1), (2, 2)],
            matrix = [[Fin 0, PInf, PInf, PInf], [PInf, Fin 0, Fin 1, Fin 5],
                      [PInf, Fin 1, Fin 0, Fin 1], [PInf, Fin 5, Fin 1, Fin 0]]\<rparr>"
proof -
  have nonneg: "\<forall>x y. 0 \<le> squared_difference x y"
    by (simp add: squared_difference_nonneg)
  then have cond: "\<forall>x y. length x = length y \<longrightarrow> 0 \<le> squared_difference x y"
    by simp
  have zero: "\<forall>x. squared_difference x x = 0"
    by (simp add: squared_difference_self)
  have win: "valid_window None"
    by (simp add: valid_window_def)
  have dim: "same_dimension [[1], [2], [3]] [[1], [2], [3]]"
    by (simp add: same_dimension_def)
  have m: "cost_matrix squared_difference None [[1], [2], [3]] [[1], [2], [3]] =
             [[Fin 0, PInf, PInf, PInf], [PInf, Fin 0, Fin 1, Fin 5],
              [PInf, Fin 1, Fin 0, Fin 1], [PInf, Fin 5, Fin 1, Fin 0]]"
    by code_simp
  have p: "map (\<lambda>i. (i, i)) [0..<length [[1], [2], [3]]] = [(0, 0), (1, 1), (2, 2)]"
    by code_simp
  from identical_sequences_diagonal[OF cond zero win dim] nonneg zero win dim
  show ?thesis by (simp only: m p simp_thms)
qed

subsection \<open>Windows\<close>

text \<open>
  C7: for windows \<open>w1 < w2\<close>, the accumulated cost of the corner cell, which is what
  \<open>align\<close> returns as total cost, does not grow when the band widens from \<open>w1\<close> to \<open>w2\<close>,
  nor when the band is removed; +infinity is the cost of an alignment that the band
  makes infeasible. In terms of results: when \<open>align\<close> returns under \<open>w1\<close>, it returns
  under \<open>w2\<close> and without a window, with total costs in that (non-increasing) order.
\<close>

theorem window_monotone:
  assumes "w1 < w2"
  shows "ecost_le (final_cost (cost_matrix c (Some w2) A B) A B) (final_cost (cost_matrix c (Some w1) A B) A B)
       \<and> ecost_le (final_cost (cost_matrix c None A B) A B) (final_cost (cost_matrix c (Some w2) A B) A B)
       \<and> (\<forall>r1. align c (Some w1) A B = Inr r1 \<longrightarrow>
            (\<exists>r2 r3. align c (Some w2) A B = Inr r2 \<and> align c None A B = Inr r3
                \<and> total_cost r2 \<le> total_cost r1 \<and> total_cost r3 \<le> total_cost r2))"
proof -
  let ?f = "\<lambda>w. final_cost (cost_matrix c w A B) A B"
  have wider: "ecost_le (?f (Some w2)) (?f (Some w1))"
    unfolding final_cost_cell using assms by (intro cell_band_mono) (simp add: in_band_def)
  have unbanded: "ecost_le (?f None) (?f (Some w2))"
    unfolding final_cost_cell by (intro cell_band_mono) (simp add: in_band_def)
  have results: "\<exists>r2 r3. align c (Some w2) A B = Inr r2 \<and> align c None A B = Inr r3
                \<and> total_cost r2 \<le> total_cost r1 \<and> total_cost r3 \<le> total_cost r2"
    if r1: "align c (Some w1) A B = Inr r1" for r1
  proof -
    from r1 have ok: "0 \<le> w1" "same_dimension A B"
      by (auto simp: align_def valid_window_def split: if_splits)
    from r1 ok have f1: "?f (Some w1) = Fin (total_cost r1)"
      by (auto simp: align_def valid_window_def Let_def split: ecost.splits)
    from wider f1 obtain t2 where f2: "?f (Some w2) = Fin t2" "t2 \<le> total_cost r1"
      by (cases "?f (Some w2)") auto
    from unbanded f2 obtain t3 where f3: "?f None = Fin t3" "t3 \<le> t2"
      by (cases "?f None") auto
    show ?thesis
      using ok assms f2 f3 by (simp add: align_def valid_window_def Let_def)
  qed
  from wider unbanded results show ?thesis by blast
qed

text \<open>
  C7 at \<open>A = [0,1,1]\<close>, \<open>B = [0,0,1]\<close> under the squared difference: window 0 forces the
  diagonal, of cost 1; window 1 and no window reach cost 0.
\<close>

theorem window_monotone_witness:
  "(0::int) < 1
   \<and> align squared_difference (Some 0) [[0], [1], [1]] [[0], [0], [1]] =
       Inr \<lparr>total_cost = 1, path = [(0, 0), (1, 1), (2, 2)],
            matrix = [[Fin 0, PInf, PInf, PInf], [PInf, Fin 0, PInf, PInf],
                      [PInf, PInf, Fin 1, PInf], [PInf, PInf, PInf, Fin 1]]\<rparr>
   \<and> (\<exists>r2 r3. align squared_difference (Some 1) [[0], [1], [1]] [[0], [0], [1]] = Inr r2
          \<and> align squared_difference None [[0], [1], [1]] [[0], [0], [1]] = Inr r3
          \<and> total_cost r2 \<le> 1 \<and> total_cost r3 \<le> total_cost r2)
   \<and> map_sum id total_cost (align squared_difference (Some 1) [[0], [1], [1]] [[0], [0], [1]]) = Inr 0
   \<and> map_sum id total_cost (align squared_difference None [[0], [1], [1]] [[0], [0], [1]]) = Inr 0"
proof -
  have lt: "(0::int) < 1" by simp
  have r1: "align squared_difference (Some 0) [[0], [1], [1]] [[0], [0], [1]] =
       Inr \<lparr>total_cost = 1, path = [(0, 0), (1, 1), (2, 2)],
            matrix = [[Fin 0, PInf, PInf, PInf], [PInf, Fin 0, PInf, PInf],
                      [PInf, PInf, Fin 1, PInf], [PInf, PInf, PInf, Fin 1]]\<rparr>"
    by code_simp
  have r2: "map_sum id total_cost (align squared_difference (Some 1) [[0], [1], [1]] [[0], [0], [1]]) = Inr 0"
    by code_simp
  have r3: "map_sum id total_cost (align squared_difference None [[0], [1], [1]] [[0], [0], [1]]) = Inr 0"
    by code_simp
  from window_monotone[OF lt, of squared_difference "[[0], [1], [1]]" "[[0], [0], [1]]"] r1
  have "\<exists>r2 r3. align squared_difference (Some 1) [[0], [1], [1]] [[0], [0], [1]] = Inr r2
          \<and> align squared_difference None [[0], [1], [1]] [[0], [0], [1]] = Inr r3
          \<and> total_cost r2 \<le> 1 \<and> total_cost r3 \<le> total_cost r2"
    by auto
  with lt r1 r2 r3 show ?thesis by blast
qed

text \<open>The remaining scenarios of section 8 of the specification.\<close>

lemma scenario_constant_offset:
  "align squared_difference None [[0], [0], [0]] [[1], [1], [1]] =
     Inr \<lparr>total_cost = 3, path = [(0, 0), (1, 1), (2, 2)],
          matrix = [[Fin 0, PInf, PInf, PInf], [PInf, Fin 1, Fin 2, Fin 3],
                    [PInf, Fin 2, Fin 2, Fin 3], [PInf, Fin 3, Fin 3, Fin 3]]\<rparr>"
  by code_simp

lemma scenario_infeasible:
  "align squared_difference (Some 0) [[0], [0], [0]] [[1], [1]] = Inl InfeasibleAlignment"
  by code_simp

lemma scenario_negative_window:
  "align squared_difference (Some (- 1)) [[0], [0], [0]] [[1], [1]] = Inl InvalidParameters"
  by code_simp

section \<open>Properties of SummaryClassifier\<close>

subsection \<open>Without a transformer every method raises\<close>

lemma fit_None:
  "u_transformer s = None \<Longrightarrow>
   fst (SummaryClassifier_fit env X y (h, s)) = Inl AttributeError
   \<and> u_transformer (snd (snd (SummaryClassifier_fit env X y (h, s)))) = None"
  by (simp add: SummaryClassifier_fit_def Let_def split: prod.splits option.splits)

lemma predict_None:
  "u_transformer s = None \<Longrightarrow> SummaryClassifier_predict env X (h, s) = Inl AttributeError"
  by (simp add: SummaryClassifier_predict_def split: option.splits)

lemma predict_proba_None:
  "u_transformer s = None \<Longrightarrow> SummaryClassifier_predict_proba env X (h, s) = Inl AttributeError"
  by (simp add: SummaryClassifier_predict_proba_def Let_def split: option.splits)

lemma step_None: "u_transformer (snd \<sigma>) = None \<Longrightarrow> u_transformer (snd (step env \<sigma> call)) = None"
  by (cases call; cases \<sigma>) (simp_all add: fit_None)

lemma run_None:
  "u_transformer (snd \<sigma>) = None \<Longrightarrow> u_transformer (snd (foldl (step env) \<sigma> calls)) = None"
  by (induction calls arbitrary: \<sigma>) (simp_all add: step_None)

text \<open>
  C8: \<^verbatim>\<open>__init__\<close> sets \<^verbatim>\<open>_transformer\<close> to \<^verbatim>\<open>None\<close>, and after any sequence of
  calls of \<^verbatim>\<open>_fit\<close>, \<^verbatim>\<open>_predict\<close> and \<^verbatim>\<open>_predict_proba\<close> it is still
  \<^verbatim>\<open>None\<close>; so it is \<^verbatim>\<open>None\<close> when a further call of any of the three methods
  reaches \<^verbatim>\<open>fit_transform\<close> or \<^verbatim>\<open>transform\<close>, and the call raises
  \<^verbatim>\<open>AttributeError\<close>.
\<close>

theorem transformer_never_assigned:
  "u_transformer (SummaryClassifier_init b sf sq est nj rs) = None
   \<and> u_transformer (snd (foldl (step env) (h, SummaryClassifier_init b sf sq est nj rs) calls)) = None
   \<and> fst (SummaryClassifier_fit env X y
            (foldl (step env) (h, SummaryClassifier_init b sf sq est nj rs) calls)) = Inl AttributeError
   \<and> SummaryClassifier_predict env X
        (foldl (step env) (h, SummaryClassifier_init b sf sq est nj rs) calls) = Inl AttributeError
   \<and> SummaryClassifier_predict_proba env X
        (foldl (step env) (h, SummaryClassifier_init b sf sq est nj rs) calls) = Inl AttributeError"
proof -
  let ?s0 = "SummaryClassifier_init b sf sq est nj rs"
  obtain h' s' where run: "foldl (step env) (h, ?s0) calls = (h', s')"
    by (cases "foldl (step env) (h, ?s0) calls")
  have init: "u_transformer ?s0 = None"
    by (simp add: SummaryClassifier_init_def)
  then have "u_transformer (snd (foldl (step env) (h, ?s0) calls)) = None"
    by (intro run_None) simp
  then have none: "u_transformer s' = None" by (simp add: run)
  show ?thesis
    unfolding run using init none by (simp add: fit_None predict_None predict_proba_None)
qed

text \<open>
  C1 does not hold of the code: the class documents that it transforms the input with
  the summary transformer and builds the estimator on the result, but the construction of
  the transformer is commented out. On \<^verbatim>\<open>SummaryClassifier()\<close> and two series with
  labels 0 and 1, \<^verbatim>\<open>_fit\<close> builds and clones the random forest and then raises
  \<^verbatim>\<open>AttributeError\<close>: nothing is transformed and the clone is left unfitted.
\<close>

theorem fit_default_raises:
  "SummaryClassifier_fit stub_env [[1, 2, 3], [4, 5, 6]] [0, 1]
     (\<lparr>estimators = [], transformers = []\<rparr>, default_classifier)
   = (Inl AttributeError,
      \<lparr>estimators = [stub_forest, stub_forest], transformers = []\<rparr>,
      default_classifier\<lparr>u_estimator := Some 1\<rparr>)
   \<and> SummaryClassifier_predict stub_env [[1, 2, 3], [4, 5, 6]]
        (\<lparr>estimators = [stub_forest, stub_forest], transformers = []\<rparr>,
         default_classifier\<lparr>u_estimator := Some 1\<rparr>)
     = Inl AttributeError"
  by (simp add: SummaryClassifier_fit_def SummaryClassifier_predict_def SummaryClassifier_init_def
        clone_estimator_def new_estimator_def stub_env_def stub_forest_def stub_base_def
        default_classifier_def Let_def)

text \<open>
  The same run on a classifier built around an estimator without \<^verbatim>\<open>predict_proba\<close>:
  \<^verbatim>\<open>_fit\<close> raises, the classifier is not fitted, and \<^verbatim>\<open>_predict_proba\<close> on the
  state it left raises \<^verbatim>\<open>AttributeError\<close> as well.
\<close>

lemma scenario_predict_proba_without_transformer:
  "SummaryClassifier_fit stub_env [[1, 2, 3], [4, 5, 6]] [0, 1]
     (\<lparr>estimators = [stub_estimator], transformers = []\<rparr>, classifier_with_estimator)
   = (Inl AttributeError,
      \<lparr>estimators = [stub_estimator, stub_estimator\<lparr>est_n_jobs := Attr (Some 1)\<rparr>],
       transformers = []\<rparr>,
      classifier_with_estimator\<lparr>u_estimator := Some 1\<rparr>)
   \<and> callable_predict_proba (stub_estimator\<lparr>est_n_jobs := Attr (Some 1)\<rparr>) = False
   \<and> SummaryClassifier_predict_proba stub_env [[1, 2, 3], [4, 5, 6]]
        (\<lparr>estimators = [stub_estimator, stub_estimator\<lparr>est_n_jobs := Attr (Some 1)\<rparr>],
          transformers = []\<rparr>,
         classifier_with_estimator\<lparr>u_estimator := Some 1\<rparr>)
     = Inl AttributeError"
  by (simp add: SummaryClassifier_fit_def SummaryClassifier_predict_proba_def
        SummaryClassifier_init_def clone_estimator_def new_estimator_def stub_env_def
        stub_estimator_def stub_base_def classifier_with_estimator_def Let_def)

subsection \<open>What the methods would do with a transformer\<close>





text \<open>
  Both methods run in a state that holds a transformer, which no call of the class's own
  methods builds: \<^verbatim>\<open>_fit\<close> forwards the thread count and fits the clone on the
  transformed input, and \<^verbatim>\<open>_predict_proba\<close> gives one one-hot row per instance.
\<close>

lemma scenario_fit_with_transformer:
  "SummaryClassifier_fit stub_env [[1, 2, 3], [4, 5, 6]] [0, 1]
     (\<lparr>estimators = [stub_estimator], transformers = [()]\<rparr>,
      classifier_with_estimator\<lparr>u_transformer := Some 0\<rparr>)
   = (Inr (),
      \<lparr>estimators = [stub_estimator,
                     stub_estimator\<lparr>est_n_jobs := Attr (Some 1), est_model := Some 0\<rparr>],
       transformers = [()]\<rparr>,
      classifier_with_estimator\<lparr>u_transformer := Some 0, u_estimator := Some 1\<rparr>)"
  by (simp add: SummaryClassifier_fit_def SummaryClassifier_init_def clone_estimator_def
        new_estimator_def stub_env_def stub_estimator_def stub_base_def
        classifier_with_estimator_def Let_def)

lemma scenario_predict_proba_with_transformer:
  "SummaryClassifier_predict_proba stub_env [[1, 2, 3], [4, 5, 6]]
     (\<lparr>estimators = [stub_estimator,
                     stub_estimator\<lparr>est_n_jobs := Attr (Some 1), est_model := Some 1\<rparr>],
       transformers = [()]\<rparr>,
      classifier_with_estimator\<lparr>u_transformer := Some 0, u_estimator := Some 1\<rparr>)
   = Inr [[0, 1], [0, 1]]"
  by (simp add: SummaryClassifier_predict_proba_def SummaryClassifier_init_def
        stub_env_def stub_estimator_def stub_base_def classifier_with_estimator_def
        zeros_def set_one_def upt_conv_Cons numeral_2_eq_2 Let_def)

subsection \<open>The effect of \<^verbatim>\<open>_fit\<close> on the state\<close>

lemma nth_snoc2: "(xs @ [a, b]) ! Suc (length xs) = b"
  by (simp add: nth_append)

lemma update_snoc2: "(xs @ [a, b])[Suc (length xs) := v] = xs @ [a, v]"
  by (simp add: list_update_append)

lemma fit_unfold:
  "SummaryClassifier_fit env X y (h, s) =
     (let cl = clone env (fit_source env h s) (random_state s);
          e0 = (if getattr_or_None (est_n_jobs cl) \<noteq> None
                then cl\<lparr>est_n_jobs := Attr (Some (u_threads_to_use (base s)))\<rparr> else cl);
          old = (case estimator s of
                   None \<Rightarrow> estimators h @ [RandomForestClassifier env 200]
                 | Some a \<Rightarrow> estimators h);
          s' = s\<lparr>u_estimator := Some (length old)\<rparr>
      in case u_transformer s of
           None \<Rightarrow> (Inl AttributeError, h\<lparr>estimators := old @ [e0]\<rparr>, s')
         | Some t \<Rightarrow>
             (Inr (),
              h\<lparr>estimators := old @ [est_fit env e0 (fst (fit_transform env (transformers h ! t) X y)) y],
                transformers := (transformers h)[t := snd (fit_transform env (transformers h ! t) X y)]\<rparr>,
              s'))"
  by (cases "estimator s"; cases "u_transformer s")
     (simp_all add: SummaryClassifier_fit_def fit_source_def clone_estimator_def new_estimator_def
        nth_snoc2 update_snoc2 Let_def split: prod.splits)

lemma fit_result:
  assumes res: "SummaryClassifier_fit env X y (h, s) = (r, h', s')"
  shows "\<exists>old cl e0.
           old = (case estimator s of
                    None \<Rightarrow> estimators h @ [RandomForestClassifier env 200]
                  | Some a \<Rightarrow> estimators h)
         \<and> cl = clone env (fit_source env h s) (random_state s)
         \<and> e0 = (if getattr_or_None (est_n_jobs cl) \<noteq> None
                  then cl\<lparr>est_n_jobs := Attr (Some (u_threads_to_use (base s)))\<rparr> else cl)
         \<and> s' = s\<lparr>u_estimator := Some (length old)\<rparr>
         \<and> estimators h' = old @ [case u_transformer s of
                                     None \<Rightarrow> e0
                                   | Some t \<Rightarrow> est_fit env e0 (fst (fit_transform env (transformers h ! t) X y)) y]"
  using res unfolding fit_unfold
  by (cases "u_transformer s") (auto simp: Let_def)

text \<open>
  C4: when \<^verbatim>\<open>getattr\<close> reads a value other than \<^verbatim>\<open>None\<close> from the clone's
  \<^verbatim>\<open>n_jobs\<close>, \<^verbatim>\<open>_fit\<close> sets the clone's \<^verbatim>\<open>n_jobs\<close> to
  \<^verbatim>\<open>self._threads_to_use\<close> before anything is fitted: the object at the reference in
  \<^verbatim>\<open>self._estimator\<close> is the clone with that one attribute changed when the method
  stops at the missing transformer, and the result of fitting exactly that object
  otherwise. Nothing else about threads changes: the classifier's own \<^verbatim>\<open>n_jobs\<close> and
  the attributes of the base class are as before, and so are the estimators that existed
  before the call.
\<close>

theorem fit_forwards_threads:
  assumes res: "SummaryClassifier_fit env X y (h, s) = (r, h', s')"
    and cl: "cl = clone env (fit_source env h s) (random_state s)"
    and m: "getattr_or_None (est_n_jobs cl) \<noteq> None"
  shows "\<exists>c. u_estimator s' = Some c \<and> length (estimators h) \<le> c
           \<and> estimators h' ! c =
               (case u_transformer s of
                  None \<Rightarrow> cl\<lparr>est_n_jobs := Attr (Some (u_threads_to_use (base s)))\<rparr>
                | Some t \<Rightarrow>
                    est_fit env (cl\<lparr>est_n_jobs := Attr (Some (u_threads_to_use (base s)))\<rparr>)
                      (fst (fit_transform env (transformers h ! t) X y)) y)
           \<and> take (length (estimators h)) (estimators h') = estimators h
           \<and> n_jobs s' = n_jobs s \<and> base s' = base s"
proof -
  from fit_result[OF res] obtain old where
    old: "old = (case estimator s of
                    None \<Rightarrow> estimators h @ [RandomForestClassifier env 200]
                  | Some a \<Rightarrow> estimators h)"
    and s': "s' = s\<lparr>u_estimator := Some (length old)\<rparr>"
    and h': "estimators h' = old @ [case u_transformer s of
               None \<Rightarrow> cl\<lparr>est_n_jobs := Attr (Some (u_threads_to_use (base s)))\<rparr>
             | Some t \<Rightarrow> est_fit env (cl\<lparr>est_n_jobs := Attr (Some (u_threads_to_use (base s)))\<rparr>)
                          (fst (fit_transform env (transformers h ! t) X y)) y]"
    using m unfolding cl by auto
  have len: "length (estimators h) \<le> length old"
    by (simp add: old split: option.splits)
  have tk: "take (length (estimators h)) old = estimators h"
    unfolding old by (cases "estimator s") simp_all
  have tk': "take (length (estimators h)) (estimators h') = estimators h"
    using len tk by (simp add: h')
  have "u_estimator s' = Some (length old)" "n_jobs s' = n_jobs s" "base s' = base s"
    by (simp_all add: s')
  moreover have "estimators h' ! length old =
               (case u_transformer s of
                  None \<Rightarrow> cl\<lparr>est_n_jobs := Attr (Some (u_threads_to_use (base s)))\<rparr>
                | Some t \<Rightarrow>
                    est_fit env (cl\<lparr>est_n_jobs := Attr (Some (u_threads_to_use (base s)))\<rparr>)
                      (fst (fit_transform env (transformers h ! t) X y)) y)"
    by (simp add: h')
  ultimately show ?thesis
    using len tk' by blast
qed

text \<open>C4 on a classifier built around an estimator with \<^verbatim>\<open>n_jobs=4\<close>,
  with \<^verbatim>\<open>_threads_to_use\<close> equal to 1.\<close>

theorem fit_forwards_threads_witness:
  "SummaryClassifier_fit stub_env [[1, 2, 3], [4, 5, 6]] [0, 1]
     (\<lparr>estimators = [stub_estimator], transformers = []\<rparr>, classifier_with_estimator)
   = (Inl AttributeError,
      \<lparr>estimators = [stub_estimator, stub_estimator\<lparr>est_n_jobs := Attr (Some 1)\<rparr>],
       transformers = []\<rparr>,
      classifier_with_estimator\<lparr>u_estimator := Some 1\<rparr>)
   \<and> getattr_or_None (est_n_jobs (clone stub_env
         (fit_source stub_env \<lparr>estimators = [stub_estimator], transformers = []\<rparr>
            classifier_with_estimator)
         (random_state classifier_with_estimator))) = Some 4
   \<and> est_n_jobs ([stub_estimator, stub_estimator\<lparr>est_n_jobs := Attr (Some 1)\<rparr>] ! 1)
       = Attr (Some (u_threads_to_use (base classifier_with_estimator)))"
proof -
  let ?h = "\<lparr>estimators = [stub_estimator], transformers = ([] :: unit list)\<rparr>"
  let ?h' = "\<lparr>estimators = [stub_estimator, stub_estimator\<lparr>est_n_jobs := Attr (Some 1)\<rparr>],
              transformers = ([] :: unit list)\<rparr>"
  have res: "SummaryClassifier_fit stub_env [[1, 2, 3], [4, 5, 6]] [0, 1] (?h, classifier_with_estimator)
       = (Inl AttributeError, ?h', classifier_with_estimator\<lparr>u_estimator := Some 1\<rparr>)"
    by (simp add: SummaryClassifier_fit_def SummaryClassifier_init_def clone_estimator_def
          new_estimator_def stub_env_def stub_estimator_def stub_base_def
          classifier_with_estimator_def Let_def)
  have m: "getattr_or_None (est_n_jobs (clone stub_env
             (fit_source stub_env ?h classifier_with_estimator)
             (random_state classifier_with_estimator))) = Some 4"
    by (simp add: fit_source_def stub_env_def stub_estimator_def classifier_with_estimator_def
          SummaryClassifier_init_def)
  then have m': "getattr_or_None (est_n_jobs (clone stub_env
             (fit_source stub_env ?h classifier_with_estimator)
             (random_state classifier_with_estimator))) \<noteq> None"
    by simp
  from fit_forwards_threads[OF res refl m']
  have "est_n_jobs (estimators ?h' ! 1)
          = Attr (Some (u_threads_to_use (base classifier_with_estimator)))"
    by (simp add: classifier_with_estimator_def SummaryClassifier_init_def stub_env_def
          fit_source_def stub_estimator_def)
  with res m show ?thesis by simp
qed

text \<open>
  C10: when \<^verbatim>\<open>getattr\<close> reads \<^verbatim>\<open>None\<close> from the clone's \<^verbatim>\<open>n_jobs\<close>, because the
  attribute is absent or because it holds \<^verbatim>\<open>None\<close>, \<^verbatim>\<open>_fit\<close> does not touch the
  clone before fitting: the object at the reference in \<^verbatim>\<open>self._estimator\<close> is the
  clone itself when the method stops at the missing transformer, and the result of
  fitting the unchanged clone otherwise.
\<close>

theorem fit_keeps_n_jobs_None:
  assumes res: "SummaryClassifier_fit env X y (h, s) = (r, h', s')"
    and cl: "cl = clone env (fit_source env h s) (random_state s)"
    and m: "getattr_or_None (est_n_jobs cl) = None"
  shows "\<exists>c. u_estimator s' = Some c \<and> length (estimators h) \<le> c
           \<and> estimators h' ! c =
               (case u_transformer s of
                  None \<Rightarrow> cl
                | Some t \<Rightarrow> est_fit env cl (fst (fit_transform env (transformers h ! t) X y)) y)"
proof -
  from fit_result[OF res] obtain old where
    old: "old = (case estimator s of
                    None \<Rightarrow> estimators h @ [RandomForestClassifier env 200]
                  | Some a \<Rightarrow> estimators h)"
    and s': "s' = s\<lparr>u_estimator := Some (length old)\<rparr>"
    and h': "estimators h' = old @ [case u_transformer s of
               None \<Rightarrow> cl
             | Some t \<Rightarrow> est_fit env cl (fst (fit_transform env (transformers h ! t) X y)) y]"
    using m unfolding cl by auto
  have len: "length (estimators h) \<le> length old"
    by (simp add: old split: option.splits)
  show ?thesis
    by (rule exI[of _ "length old"]) (simp add: s' h' len)
qed

text \<open>C10 on \<^verbatim>\<open>SummaryClassifier()\<close>: the random forest has \<^verbatim>\<open>n_jobs=None\<close>,
  and its clone keeps it.\<close>

theorem fit_keeps_n_jobs_None_witness:
  "SummaryClassifier_fit stub_env [[1, 2, 3], [4, 5, 6]] [0, 1]
     (\<lparr>estimators = [], transformers = []\<rparr>, default_classifier)
   = (Inl AttributeError,
      \<lparr>estimators = [stub_forest, stub_forest], transformers = []\<rparr>,
      default_classifier\<lparr>u_estimator := Some 1\<rparr>)
   \<and> getattr_or_None (est_n_jobs (clone stub_env
         (fit_source stub_env \<lparr>estimators = [], transformers = []\<rparr> default_classifier)
         (random_state default_classifier))) = None
   \<and> est_n_jobs ([stub_forest, stub_forest] ! 1) = Attr None"
proof -
  let ?h = "\<lparr>estimators = ([] :: nat option sk_estimator list), transformers = ([] :: unit list)\<rparr>"
  let ?h' = "\<lparr>estimators = [stub_forest, stub_forest], transformers = ([] :: unit list)\<rparr>"
  have res: "SummaryClassifier_fit stub_env [[1, 2, 3], [4, 5, 6]] [0, 1] (?h, default_classifier)
       = (Inl AttributeError, ?h', default_classifier\<lparr>u_estimator := Some 1\<rparr>)"
    by (simp add: SummaryClassifier_fit_def SummaryClassifier_init_def clone_estimator_def
          new_estimator_def stub_env_def stub_forest_def stub_base_def
          default_classifier_def Let_def)
  have m: "getattr_or_None (est_n_jobs (clone stub_env
             (fit_source stub_env ?h default_classifier)
             (random_state default_classifier))) = None"
    by (simp add: fit_source_def stub_env_def stub_forest_def default_classifier_def
          SummaryClassifier_init_def)
  from fit_keeps_n_jobs_None[OF res refl m]
  have "est_n_jobs (estimators ?h' ! 1) = Attr None"
    by (simp add: default_classifier_def SummaryClassifier_init_def stub_env_def
          fit_source_def stub_forest_def)
  with res m show ?thesis by simp
qed

text \<open>
  C9: \<^verbatim>\<open>_fit\<close> leaves the five constructor parameters as they were. The object that
  is prepared and fitted is a new one, stored at a reference that did not exist before the
  call and kept in \<^verbatim>\<open>self._estimator\<close>: it is the clone of a random forest with 200
  trees when \<^verbatim>\<open>self.estimator\<close> is \<^verbatim>\<open>None\<close>, and of the caller's estimator
  otherwise, up to its \<^verbatim>\<open>n_jobs\<close>. Every estimator that existed before the call, the
  caller's among them, is unchanged, and \<^verbatim>\<open>self._estimator\<close> does not refer to the
  caller's estimator.
\<close>

theorem fit_frame:
  assumes wf: "case estimator s of None \<Rightarrow> True | Some a \<Rightarrow> a < length (estimators h)"
    and res: "SummaryClassifier_fit env X y (h, s) = (r, h', s')"
    and cl: "cl = clone env (fit_source env h s) (random_state s)"
  shows "summary_functions s' = summary_functions s \<and> summary_quantiles s' = summary_quantiles s
       \<and> estimator s' = estimator s \<and> n_jobs s' = n_jobs s \<and> random_state s' = random_state s
       \<and> take (length (estimators h)) (estimators h') = estimators h
       \<and> (case estimator s of None \<Rightarrow> True
           | Some a \<Rightarrow> estimators h' ! a = estimators h ! a \<and> u_estimator s' \<noteq> Some a)
       \<and> (\<exists>c e0. u_estimator s' = Some c \<and> length (estimators h) \<le> c \<and> c < length (estimators h')
             \<and> e0\<lparr>est_n_jobs := est_n_jobs cl\<rparr> = cl
             \<and> estimators h' ! c =
                 (case u_transformer s of
                    None \<Rightarrow> e0
                  | Some t \<Rightarrow> est_fit env e0 (fst (fit_transform env (transformers h ! t) X y)) y))"
proof -
  from fit_result[OF res] obtain old e0 where
    old: "old = (case estimator s of
                    None \<Rightarrow> estimators h @ [RandomForestClassifier env 200]
                  | Some a \<Rightarrow> estimators h)"
    and e0: "e0 = (if getattr_or_None (est_n_jobs cl) \<noteq> None
                  then cl\<lparr>est_n_jobs := Attr (Some (u_threads_to_use (base s)))\<rparr> else cl)"
    and s': "s' = s\<lparr>u_estimator := Some (length old)\<rparr>"
    and h': "estimators h' = old @ [case u_transformer s of
               None \<Rightarrow> e0
             | Some t \<Rightarrow> est_fit env e0 (fst (fit_transform env (transformers h ! t) X y)) y]"
    unfolding cl by blast
  have len: "length (estimators h) \<le> length old"
    by (simp add: old split: option.splits)
  have tk: "take (length (estimators h)) old = estimators h"
    by (simp add: old split: option.splits)
  have params: "summary_functions s' = summary_functions s \<and> summary_quantiles s' = summary_quantiles s
       \<and> estimator s' = estimator s \<and> n_jobs s' = n_jobs s \<and> random_state s' = random_state s"
    by (simp add: s')
  have frame: "take (length (estimators h)) (estimators h') = estimators h"
    using len tk by (simp add: h')
  have caller: "case estimator s of None \<Rightarrow> True
           | Some a \<Rightarrow> estimators h' ! a = estimators h ! a \<and> u_estimator s' \<noteq> Some a"
    using wf by (auto simp: s' h' old nth_append split: option.splits)
  have e0cl: "e0\<lparr>est_n_jobs := est_n_jobs cl\<rparr> = cl"
    by (simp add: e0)
  have fitted: "\<exists>c e0. u_estimator s' = Some c \<and> length (estimators h) \<le> c \<and> c < length (estimators h')
             \<and> e0\<lparr>est_n_jobs := est_n_jobs cl\<rparr> = cl
             \<and> estimators h' ! c =
                 (case u_transformer s of
                    None \<Rightarrow> e0
                  | Some t \<Rightarrow> est_fit env e0 (fst (fit_transform env (transformers h ! t) X y)) y)"
    by (rule exI[of _ "length old"], rule exI[of _ e0]) (simp add: s' h' len e0cl)
  from params frame caller fitted show ?thesis by blast
qed

text \<open>C9 on a classifier built around the caller's estimator at reference 0.\<close>

theorem fit_frame_witness:
  "(case estimator classifier_with_estimator of
      None \<Rightarrow> True
    | Some a \<Rightarrow> a < length (estimators \<lparr>estimators = [stub_estimator], transformers = []\<rparr>))
   \<and> SummaryClassifier_fit stub_env [[1, 2, 3], [4, 5, 6]] [0, 1]
       (\<lparr>estimators = [stub_estimator], transformers = []\<rparr>, classifier_with_estimator)
     = (Inl AttributeError,
        \<lparr>estimators = [stub_estimator, stub_estimator\<lparr>est_n_jobs := Attr (Some 1)\<rparr>],
         transformers = []\<rparr>,
        classifier_with_estimator\<lparr>u_estimator := Some 1\<rparr>)
   \<and> estimator (classifier_with_estimator\<lparr>u_estimator := Some 1\<rparr>) = Some 0
   \<and> [stub_estimator, stub_estimator\<lparr>est_n_jobs := Attr (Some 1)\<rparr>] ! 0 = stub_estimator
   \<and> est_model ([stub_estimator, stub_estimator\<lparr>est_n_jobs := Attr (Some 1)\<rparr>] ! 0) = None"
proof -
  let ?h = "\<lparr>estimators = [stub_estimator], transformers = ([] :: unit list)\<rparr>"
  let ?h' = "\<lparr>estimators = [stub_estimator, stub_estimator\<lparr>est_n_jobs := Attr (Some 1)\<rparr>],
              transformers = ([] :: unit list)\<rparr>"
  have wf: "case estimator classifier_with_estimator of
              None \<Rightarrow> True | Some a \<Rightarrow> a < length (estimators ?h)"
    by (simp add: classifier_with_estimator_def SummaryClassifier_init_def)
  have res: "SummaryClassifier_fit stub_env [[1, 2, 3], [4, 5, 6]] [0, 1] (?h, classifier_with_estimator)
       = (Inl AttributeError, ?h', classifier_with_estimator\<lparr>u_estimator := Some 1\<rparr>)"
    by (simp add: SummaryClassifier_fit_def SummaryClassifier_init_def clone_estimator_def
          new_estimator_def stub_env_def stub_estimator_def stub_base_def
          classifier_with_estimator_def Let_def)
  from fit_frame[OF wf res refl]
  have "estimator (classifier_with_estimator\<lparr>u_estimator := Some 1\<rparr>) = Some 0
      \<and> estimators ?h' ! 0 = estimators ?h ! 0"
    by (simp add: classifier_with_estimator_def SummaryClassifier_init_def)
  with wf res show ?thesis by (simp add: stub_estimator_def)
qed

subsection \<open>Fitted classifiers\<close>





end
